theory Spec2Isabelle
  imports Main "HOL-Library.Word"
begin

section \<open>UpUpUp: notification state machine, operator hooks, retention\<close>

text \<open>
  A shallow embedding of the parts of the worker (package runner, storage, checks) and
  of the server (package hooks, app) that decide notification dispatch, hook matching,
  hook durations, retention and metrics freshness.

  Conventions.
  \<^item> A Go \<open>time.Time\<close> is an \<open>int\<close>: nanoseconds since Go's zero instant, so that
    \<open>t.IsZero()\<close> is \<open>t = 0\<close>, \<open>t.Before(u)\<close> is \<open>t < u\<close> and \<open>t.Add(d)\<close> is \<open>t + d\<close>.
  \<^item> A Go \<open>time.Duration\<close> is an \<open>int\<close> of nanoseconds; where the source multiplies
    or subtracts in 64 bits the wrap-around or the saturation is written out.
  \<^item> A Go \<open>string\<close> is a \<open>string\<close> (a list of bytes). The functions of Go's package
    \<open>strings\<close> that the code calls are a parameter of every operation that calls them.
  \<^item> \<open>time.Now()\<close> is a parameter \<open>now\<close> of each operation: one call of an operation
    reads one instant.
\<close>

subsection \<open>Strings\<close>

text \<open>
  The functions of Go's package \<open>strings\<close> that the code calls. They work on Unicode
  (\<open>TrimSpace\<close> strips every Unicode white space, \<open>ToLower\<close> and \<open>EqualFold\<close> follow the
  Unicode case tables), so they are not defined here: an operation takes the package as
  its first argument \<open>lib\<close>, and what is proved of it holds whatever these functions are.
\<close>

record strings =
  TrimSpace :: "string \<Rightarrow> string"
  ToLower :: "string \<Rightarrow> string"
  EqualFold :: "string \<Rightarrow> string \<Rightarrow> bool"

text \<open>
  The same functions on strings of ASCII bytes, where \<open>strings.TrimSpace\<close> strips exactly
  the bytes \<open>\t \n \v \f \r\<close> and the space from both ends, \<open>strings.ToLower\<close> maps \<open>A\<close>
  to \<open>Z\<close> to \<open>a\<close> to \<open>z\<close>, and \<open>strings.EqualFold\<close> compares up to that case. They
  evaluate the examples below, all of whose strings are ASCII.
\<close>

definition asciiSpace :: "char \<Rightarrow> bool" where
  "asciiSpace c = (c = CHR 0x09 \<or> c = CHR 0x0A \<or> c = CHR 0x0B \<or> c = CHR 0x0C
                   \<or> c = CHR 0x0D \<or> c = CHR 0x20)"

definition asciiTrimSpace :: "string \<Rightarrow> string" where
  "asciiTrimSpace s = rev (dropWhile asciiSpace (rev (dropWhile asciiSpace s)))"

definition asciiLowerChar :: "char \<Rightarrow> char" where
  "asciiLowerChar c =
     (case map_of (zip ''ABCDEFGHIJKLMNOPQRSTUVWXYZ'' ''abcdefghijklmnopqrstuvwxyz'') c of
        Some l \<Rightarrow> l
      | None \<Rightarrow> c)"

definition asciiToLower :: "string \<Rightarrow> string" where
  "asciiToLower s = map asciiLowerChar s"

definition ascii :: strings where
  "ascii = \<lparr>TrimSpace = asciiTrimSpace, ToLower = asciiToLower,
            EqualFold = (\<lambda>s t. asciiToLower s = asciiToLower t)\<rparr>"

subsection \<open>Time\<close>

type_synonym Time = int
type_synonym Duration = int

definition maxDuration :: Duration where
  "maxDuration = 2 ^ 63 - 1"

definition minDuration :: Duration where
  "minDuration = - (2 ^ 63)"

text \<open>\<open>t.Sub(u)\<close>: the difference, saturated to the range of a 64-bit duration.\<close>

definition Sub :: "Time \<Rightarrow> Time \<Rightarrow> Duration" where
  "Sub t u = (if t - u > maxDuration then maxDuration
              else if t - u < minDuration then minDuration else t - u)"

definition Second :: Duration where
  "Second = 1000000000"

definition Hour :: Duration where
  "Hour = 3600 * Second"


subsection \<open>Configuration (the fields the operations below read)\<close>

record NullableDuration =
  nd_Duration :: Duration
  nd_Set :: bool

record FailureRatioThreshold =
  Window :: int
  FailCount :: int

record CheckSchedule =
  sched_Interval :: "NullableDuration option"

record CheckConfig =
  check_ID :: string
  Route :: string
  InitialNotifiers :: "string list option"
  FailureRatio :: "FailureRatioThreshold option"
  Schedule :: "CheckSchedule option"

text \<open>
  \<open>InitialNotifiers\<close> is \<open>check.Notifications.Overrides\<close> with its one field:
  \<open>None\<close> when \<open>Overrides\<close> is nil. \<open>FailureRatio\<close> is \<open>check.Thresholds.FailureRatio\<close>.
\<close>

record PolicyStage =
  After :: Duration
  Every :: "Duration option"
  stage_Notifiers :: "string list"

record NotificationPolicy =
  policy_ID :: string
  Stages :: "PolicyStage list"
  ResolveNotifiers :: "string list"

subsection \<open>Hook executions and hook matching (worker, package runner)\<close>

record HookExecution =
  hx_ID :: int
  HookID :: string
  Kind :: string
  Scope :: string
  TargetIDs :: "string list"
  ActiveUntil :: "Time option"
  UntilFirstSuccess :: bool
  RequestedAt :: Time
  Status :: string

text \<open>The loop of \<open>targetMatches\<close> over the targets, in order.\<close>

fun targetLoop :: "strings \<Rightarrow> string list \<Rightarrow> string \<Rightarrow> bool" where
  "targetLoop lib [] candidate = False"
| "targetLoop lib (target # rest) candidate =
     (let t = TrimSpace lib target in
      if t = '''' then targetLoop lib rest candidate
      else if t = ''*'' then True
      else if candidate \<noteq> '''' \<and> t = candidate then True
      else targetLoop lib rest candidate)"

definition targetMatches :: "strings \<Rightarrow> string list \<Rightarrow> string \<Rightarrow> bool" where
  "targetMatches lib targets candidate =
     (if length targets = 0 then False else targetLoop lib targets candidate)"

definition hookMatchesCheck :: "strings \<Rightarrow> HookExecution \<Rightarrow> CheckConfig \<Rightarrow> bool" where
  "hookMatchesCheck lib hook check =
     (let scope = ToLower lib (TrimSpace lib (Scope hook)) in
      if scope = ''global'' then
        (if length (TargetIDs hook) = 0 then True
         else targetMatches lib (TargetIDs hook) ''*''
              \<or> targetMatches lib (TargetIDs hook) (check_ID check))
      else if scope = ''check'' then targetMatches lib (TargetIDs hook) (check_ID check)
      else if scope = ''route'' then targetMatches lib (TargetIDs hook) (Route check)
      else targetMatches lib (TargetIDs hook) (check_ID check))"

subsection \<open>Example inputs\<close>

definition ex_check :: CheckConfig where
  "ex_check = \<lparr>check_ID = ''api'', Route = ''ops'', InitialNotifiers = None,
               FailureRatio = None, Schedule = None\<rparr>"

definition ex_hook :: "string \<Rightarrow> string list \<Rightarrow> HookExecution" where
  "ex_hook scope targets =
     \<lparr>hx_ID = 1, HookID = ''pause-api'', Kind = ''pause_notifications'', Scope = scope,
      TargetIDs = targets, ActiveUntil = None, UntilFirstSuccess = False,
      RequestedAt = 1, Status = ''active''\<rparr>"

subsection \<open>Failing decision (worker, package runner)\<close>

text \<open>
  The history of a check is the list of its recorded outcomes, oldest first; an entry is
  \<open>True\<close> when the execution failed.
\<close>

definition countFailures :: "bool list \<Rightarrow> int" where
  "countFailures hs = foldl (\<lambda>failures failed. if failed then failures + 1 else failures) 0 hs"

definition thresholdBreached :: "CheckConfig \<Rightarrow> bool list \<Rightarrow> bool" where
  "thresholdBreached check history =
     (if length history = 0 then False
      else case FailureRatio check of
        None \<Rightarrow> last history
      | Some th \<Rightarrow>
          (let window = (if Window th \<le> 0 \<or> Window th > int (length history)
                         then int (length history) else Window th);
               failures = countFailures (drop (nat (int (length history) - window)) history)
           in failures \<ge> FailCount th))"

definition windowSize :: "CheckConfig \<Rightarrow> int" where
  "windowSize check =
     (case FailureRatio check of
        Some th \<Rightarrow> if Window th > 0 then Window th else 10
      | None \<Rightarrow> 10)"

definition appendHistory :: "bool list \<Rightarrow> bool \<Rightarrow> int \<Rightarrow> bool list" where
  "appendHistory history failed maxN =
     (let h = history @ [failed] in
      if maxN > 0 \<and> int (length h) > maxN then drop (nat (int (length h) - maxN)) h else h)"

text \<open>
  The number of failures among the last \<open>n\<close> outcomes of a history, and the decision as
  the specification words it: the failures among the last \<open>min(W, len(history))\<close>
  outcomes are at least \<open>K\<close>.
\<close>

definition failuresAmongLast :: "nat \<Rightarrow> bool list \<Rightarrow> int" where
  "failuresAmongLast n history =
     int (length (filter (\<lambda>failed. failed) (drop (length history - n) history)))"

definition spec_now_failing :: "CheckConfig \<Rightarrow> bool list \<Rightarrow> bool" where
  "spec_now_failing check history =
     (case FailureRatio check of
        None \<Rightarrow> last history
      | Some th \<Rightarrow>
          FailCount th \<le> failuresAmongLast (nat (min (Window th) (int (length history)))) history)"

definition ex_ratio_check :: "int \<Rightarrow> int \<Rightarrow> CheckConfig" where
  "ex_ratio_check w k =
     \<lparr>check_ID = ''api'', Route = ''ops'', InitialNotifiers = None,
      FailureRatio = Some \<lparr>Window = w, FailCount = k\<rparr>, Schedule = None\<rparr>"

subsection \<open>Hook invocation (server, packages storage, hooks and app)\<close>

text \<open>
  The server's \<open>storage.HookExecution\<close> has the fields of the worker's; \<open>ActiveUntil\<close> is
  the \<open>sql.NullTime\<close>, \<open>None\<close> when not valid (stored as NULL). \<open>HookConfig\<close> holds the
  fields of the hook's configuration that \<open>Invoke\<close> reads (\<open>hookCfg.Action.\<close>\dots).
\<close>

record HookConfig =
  hook_ID :: string
  action_Kind :: string
  action_Scope :: string
  action_TargetIDs :: "string list"
  action_Duration :: "NullableDuration option"
  action_MaxDuration :: "NullableDuration option"
  action_UntilFirstSuccess :: bool

record InvokeOptions =
  DurationOverride :: "Duration option"
  opt_UntilFirstSuccess :: "bool option"

datatype error = UnknownHook | StoreNotInitialised | InsertFailed | LastInsertIdFailed

text \<open>
  The table \<open>hook_executions\<close>, oldest row first. \<open>exec_fails\<close> says that the database
  refuses the next statement, \<open>last_insert_id_fails\<close> that it runs the statement and then
  fails to report the new row's id.
\<close>

record ServerStore =
  hook_executions :: "HookExecution list"
  exec_fails :: bool
  last_insert_id_fails :: bool

definition lastInsertId :: "HookExecution list \<Rightarrow> int" where
  "lastInsertId rows = fold (\<lambda>row m. max (hx_ID row) m) rows 0 + 1"

definition InsertHookExecution ::
  "ServerStore option \<Rightarrow> Time \<Rightarrow> HookExecution \<Rightarrow> (error + int) \<times> ServerStore option" where
  "InsertHookExecution s now exec =
     (case s of
        None \<Rightarrow> (Inl StoreNotInitialised, s)
      | Some db \<Rightarrow>
          (let exec = (if RequestedAt exec = 0 then exec\<lparr>RequestedAt := now\<rparr> else exec);
               exec = (if Status exec = '''' then exec\<lparr>Status := ''active''\<rparr> else exec)
           in if exec_fails db then (Inl InsertFailed, s)
              else (let newID = lastInsertId (hook_executions db);
                        db = db\<lparr>hook_executions := hook_executions db @ [exec\<lparr>hx_ID := newID\<rparr>]\<rparr>
                    in if last_insert_id_fails db then (Inl LastInsertIdFailed, Some db)
                       else (Inr newID, Some db))))"

text \<open>A manager that is not nil.\<close>

record Manager =
  store :: "ServerStore option"
  hooksByID :: "string \<rightharpoonup> HookConfig"
  defaultOpts_MaxDuration :: Duration

definition NewManager :: "ServerStore option \<Rightarrow> HookConfig list \<Rightarrow> Manager" where
  "NewManager st cfg =
     \<lparr>store = st,
      hooksByID = fold (\<lambda>hook m. m(hook_ID hook \<mapsto> hook)) cfg Map.empty,
      defaultOpts_MaxDuration = 24 * Hour\<rparr>"

definition resolveDuration :: "HookConfig \<Rightarrow> InvokeOptions \<Rightarrow> Duration \<Rightarrow> Duration" where
  "resolveDuration hookCfg opts fallbackMax =
     (let duration = (case action_Duration hookCfg of
                        Some d \<Rightarrow> if nd_Set d then nd_Duration d else 0
                      | None \<Rightarrow> 0);
          duration = (case DurationOverride opts of Some d \<Rightarrow> d | None \<Rightarrow> duration);
          maxDur = (case action_MaxDuration hookCfg of
                      Some m \<Rightarrow> if nd_Set m then nd_Duration m else fallbackMax
                    | None \<Rightarrow> fallbackMax);
          duration = (if maxDur > 0 \<and> duration > maxDur then maxDur else duration);
          duration = (if duration < 0 then 0 else duration)
      in duration)"

definition Invoke ::
  "Manager \<Rightarrow> Time \<Rightarrow> string \<Rightarrow> InvokeOptions \<Rightarrow> (error + HookExecution) \<times> Manager" where
  "Invoke m now hookID opts =
     (case hooksByID m hookID of
        None \<Rightarrow> (Inl UnknownHook, m)
      | Some hookCfg \<Rightarrow>
          (let duration = resolveDuration hookCfg opts (defaultOpts_MaxDuration m);
               activeUntil = (if duration > 0 then Some (now + duration) else None);
               untilFirst =
                 (case opt_UntilFirstSuccess opts of
                    None \<Rightarrow> action_UntilFirstSuccess hookCfg
                  | Some u \<Rightarrow>
                      if action_UntilFirstSuccess hookCfg \<and> \<not> u
                      then action_UntilFirstSuccess hookCfg
                      else u);
               exec = \<lparr>hx_ID = 0, HookID = hook_ID hookCfg, Kind = action_Kind hookCfg,
                        Scope = action_Scope hookCfg, TargetIDs = action_TargetIDs hookCfg,
                        ActiveUntil = activeUntil, UntilFirstSuccess = untilFirst,
                        RequestedAt = now, Status = ''active''\<rparr>
           in case InsertHookExecution (store m) now exec of
                (Inl err, s) \<Rightarrow> (Inl err, m\<lparr>store := s\<rparr>)
              | (Inr newID, s) \<Rightarrow> (Inr (exec\<lparr>hx_ID := newID\<rparr>), m\<lparr>store := s\<rparr>)))"








definition ex_hook_cfg :: "bool \<Rightarrow> NullableDuration option \<Rightarrow> HookConfig" where
  "ex_hook_cfg until_first maxd =
     \<lparr>hook_ID = ''pause-all'', action_Kind = ''pause_notifications'', action_Scope = ''global'',
      action_TargetIDs = [], action_Duration = Some \<lparr>nd_Duration = Hour, nd_Set = True\<rparr>,
      action_MaxDuration = maxd, action_UntilFirstSuccess = until_first\<rparr>"

definition ex_db :: "HookExecution list \<Rightarrow> ServerStore" where
  "ex_db rows = \<lparr>hook_executions = rows, exec_fails = False, last_insert_id_fails = False\<rparr>"

definition ex_manager :: "bool \<Rightarrow> NullableDuration option \<Rightarrow> Manager" where
  "ex_manager until_first maxd = NewManager (Some (ex_db [])) [ex_hook_cfg until_first maxd]"



definition ex_exec :: "Time \<Rightarrow> Time option \<Rightarrow> bool \<Rightarrow> HookExecution" where
  "ex_exec requested_at active_until until_first =
     \<lparr>hx_ID = 1, HookID = ''pause-all'', Kind = ''pause_notifications'', Scope = ''global'',
      TargetIDs = [], ActiveUntil = active_until, UntilFirstSuccess = until_first,
      RequestedAt = requested_at, Status = ''active''\<rparr>"

subsection \<open>Effective interval (worker, package runner; server, package app)\<close>

text \<open>
  The worker's \<open>Runner.effectiveInterval\<close>; its first argument is
  \<open>r.defaults.Interval.Duration\<close>. The function is the same in both versions of the
  runner. \<open>runCheckLoop\<close> hands its result to \<open>time.NewTicker\<close>, which panics
  (\<open>None\<close>) on a duration that is not positive.
\<close>

definition effectiveInterval :: "Duration \<Rightarrow> CheckConfig \<Rightarrow> Duration" where
  "effectiveInterval defaults_Interval check =
     (case Schedule check of
        None \<Rightarrow> defaults_Interval
      | Some schedule \<Rightarrow>
          (case sched_Interval schedule of
             None \<Rightarrow> defaults_Interval
           | Some interval \<Rightarrow>
               if nd_Set interval then nd_Duration interval else defaults_Interval))"

definition NewTicker :: "Duration \<Rightarrow> Duration option" where
  "NewTicker d = (if d \<le> 0 then None else Some d)"

definition runCheckLoop_ticker :: "Duration \<Rightarrow> CheckConfig \<Rightarrow> Duration option" where
  "runCheckLoop_ticker defaults_Interval check =
     (let interval = effectiveInterval defaults_Interval check in NewTicker interval)"

text \<open>
  The server's \<open>App.effectiveInterval\<close>; its first argument is
  \<open>a.serviceDefaults.Interval.Duration\<close>. \<open>handleMetrics\<close> and \<open>evaluateChecks\<close> both
  replace a result that is not positive by 60 seconds before they use it.
\<close>

definition App_effectiveInterval :: "Duration \<Rightarrow> CheckConfig \<Rightarrow> Duration" where
  "App_effectiveInterval serviceDefaults_Interval check =
     (let otherwise = (if serviceDefaults_Interval > 0 then serviceDefaults_Interval
                       else 60 * Second) in
      case Schedule check of
        None \<Rightarrow> otherwise
      | Some schedule \<Rightarrow>
          (case sched_Interval schedule of
             None \<Rightarrow> otherwise
           | Some interval \<Rightarrow>
               if nd_Set interval then nd_Duration interval else otherwise))"

definition evaluateChecks_interval :: "Duration \<Rightarrow> CheckConfig \<Rightarrow> Duration" where
  "evaluateChecks_interval serviceDefaults_Interval check =
     (let interval = App_effectiveInterval serviceDefaults_Interval check in
      if interval \<le> 0 then 60 * Second else interval)"

text \<open>The per-check override, \<open>None\<close> when the check sets none.\<close>

definition interval_override :: "CheckConfig \<Rightarrow> Duration option" where
  "interval_override check =
     (case Schedule check of
        None \<Rightarrow> None
      | Some schedule \<Rightarrow>
          (case sched_Interval schedule of
             None \<Rightarrow> None
           | Some interval \<Rightarrow> if nd_Set interval then Some (nd_Duration interval) else None))"

section \<open>Properties\<close>

subsection \<open>Hook matching\<close>

lemma targetLoop_iff:
  "targetLoop lib ts c \<longleftrightarrow>
     (\<exists>t \<in> set ts. TrimSpace lib t = ''*'' \<or> (c \<noteq> '''' \<and> TrimSpace lib t = c))"
  by (induction ts) (auto simp: Let_def)

lemma targetMatches_iff:
  "targetMatches lib ts c \<longleftrightarrow>
     (\<exists>t \<in> set ts. TrimSpace lib t = ''*'' \<or> (c \<noteq> '''' \<and> TrimSpace lib t = c))"
  unfolding targetMatches_def using targetLoop_iff [of lib ts c] by auto

lemmas ascii_eval = ascii_def asciiToLower_def asciiLowerChar_def asciiTrimSpace_def
  asciiSpace_def

text \<open>
  Claim C4, as the code has it, whatever \<open>strings.TrimSpace\<close> and \<open>strings.ToLower\<close> do.
  The scope is compared after trimming and lower-casing. A target hits a candidate when,
  trimmed, it is the literal \<open>*\<close> or it equals the non-empty candidate. Scope \<open>global\<close>
  matches every check only when \<open>target_ids\<close> is empty; with targets it matches as scope
  \<open>check\<close> does. Scope \<open>route\<close> compares the check's route, every other scope (also
  \<open>check\<close> and an unknown one) the check's id.
\<close>

theorem hookMatchesCheck_rule:
  "hookMatchesCheck lib hook check =
     (if ToLower lib (TrimSpace lib (Scope hook)) = ''global''
      then TargetIDs hook = [] \<or>
           (\<exists>t \<in> set (TargetIDs hook). TrimSpace lib t = ''*'' \<or>
                (check_ID check \<noteq> '''' \<and> TrimSpace lib t = check_ID check))
      else if ToLower lib (TrimSpace lib (Scope hook)) = ''route''
      then (\<exists>t \<in> set (TargetIDs hook). TrimSpace lib t = ''*'' \<or>
                (Route check \<noteq> '''' \<and> TrimSpace lib t = Route check))
      else (\<exists>t \<in> set (TargetIDs hook). TrimSpace lib t = ''*'' \<or>
                (check_ID check \<noteq> '''' \<and> TrimSpace lib t = check_ID check)))"
  unfolding hookMatchesCheck_def Let_def targetMatches_iff by auto

theorem hookMatchesCheck_rule_witness:
  "hookMatchesCheck ascii (ex_hook '' Route '' [''db'', '' ops '']) ex_check
   \<and> \<not> hookMatchesCheck ascii (ex_hook ''check'' [''db'']) ex_check
   \<and> hookMatchesCheck ascii (ex_hook ''GLOBAL'' []) ex_check"
  using hookMatchesCheck_rule [of ascii "ex_hook '' Route '' [''db'', '' ops '']" ex_check]
        hookMatchesCheck_rule [of ascii "ex_hook ''check'' [''db'']" ex_check]
        hookMatchesCheck_rule [of ascii "ex_hook ''GLOBAL'' []" ex_check]
  by (simp add: ex_hook_def ex_check_def ascii_eval)

text \<open>
  The claim as stated (scope \<open>global\<close> matches any check) fails: a global hook that
  lists targets does not match a check it does not list.
\<close>

theorem global_scope_counterexample:
  "\<not> hookMatchesCheck ascii (ex_hook ''global'' [''db'']) ex_check"
  by (simp add: hookMatchesCheck_def targetMatches_def ex_hook_def ex_check_def ascii_eval)

subsection \<open>Failing decision\<close>

lemma foldl_count:
  "foldl (\<lambda>failures failed. if failed then failures + 1 else failures) a hs =
     a + int (length (filter (\<lambda>failed. failed) hs))"
  by (induction hs arbitrary: a) auto

lemma countFailures_filter:
  "countFailures hs = int (length (filter (\<lambda>failed. failed) hs))"
  unfolding countFailures_def by (simp add: foldl_count)

lemma windowSize_pos: "0 < windowSize check"
  unfolding windowSize_def by (auto split: option.splits)

lemma thresholdBreached_nonempty:
  assumes "h \<noteq> []"
  shows "thresholdBreached check h =
           (case FailureRatio check of
              None \<Rightarrow> last h
            | Some th \<Rightarrow>
                FailCount th \<le> failuresAmongLast
                  (if 0 < Window th then nat (min (Window th) (int (length h))) else length h) h)"
proof (cases "FailureRatio check")
  case None
  then show ?thesis using assms by (simp add: thresholdBreached_def)
next
  case (Some th)
  have "nat (int (length h) - (if Window th \<le> 0 \<or> Window th > int (length h)
                                then int (length h) else Window th))
        = length h - (if 0 < Window th then nat (min (Window th) (int (length h))) else length h)"
    by auto
  then show ?thesis using assms Some
    by (simp add: thresholdBreached_def Let_def countFailures_filter failuresAmongLast_def)
qed

lemma appendHistory_drop:
  assumes "0 < maxN"
  shows "appendHistory history failed maxN =
           drop (length (history @ [failed]) - nat maxN) (history @ [failed])"
proof -
  have "nat (int (length (history @ [failed])) - maxN) = length (history @ [failed]) - nat maxN"
    using assms by auto
  moreover have "\<not> int (length (history @ [failed])) > maxN \<Longrightarrow>
                 length (history @ [failed]) - nat maxN = 0"
    using assms by auto
  ultimately show ?thesis
    unfolding appendHistory_def Let_def using assms by (simp del: length_append)
qed

lemma thresholdBreached_appendHistory:
  "thresholdBreached check (appendHistory history failed (windowSize check)) =
     (case FailureRatio check of
        None \<Rightarrow> failed
      | Some th \<Rightarrow>
          FailCount th \<le> failuresAmongLast
            (if 0 < Window th then nat (min (Window th) (int (length (history @ [failed]))))
             else min 10 (length (history @ [failed])))
            (history @ [failed]))"
proof -
  define h where "h = history @ [failed]"
  define w where "w = nat (windowSize check)"
  define h' where "h' = drop (length h - w) h"
  have wpos: "0 < w" using windowSize_pos [of check] by (simp add: w_def)
  have hne: "h \<noteq> []" by (simp add: h_def)
  have app: "appendHistory history failed (windowSize check) = h'"
    using appendHistory_drop [OF windowSize_pos, of history failed check]
    by (simp add: h'_def h_def w_def)
  have lt: "length h - w < length h" using wpos hne by (cases h) auto
  have ne: "h' \<noteq> []" using lt by (simp add: h'_def)
  have "last h' = last h" using lt by (simp add: h'_def)
  then have lst: "last h' = failed" by (simp add: h_def)
  have len: "length h' = min w (length h)" by (auto simp: h'_def)
  show ?thesis
  proof (cases "FailureRatio check")
    case None
    then show ?thesis unfolding app using thresholdBreached_nonempty [OF ne, of check] lst
      by simp
  next
    case (Some th)
    have w: "w = (if 0 < Window th then nat (Window th) else 10)"
      using Some by (simp add: w_def windowSize_def)
    have "failuresAmongLast
            (if 0 < Window th then nat (min (Window th) (int (length h'))) else length h') h'
          = failuresAmongLast
            (if 0 < Window th then nat (min (Window th) (int (length h)))
             else min 10 (length h)) h"
      unfolding failuresAmongLast_def len h'_def w by (auto simp: min_def)
    then show ?thesis unfolding app using thresholdBreached_nonempty [OF ne, of check] Some
      by (simp add: h_def)
  qed
qed

text \<open>
  Claim C1, as the code has it. An empty history is not failing. For a history that is
  not empty: without a \<open>failure_ratio\<close> the check is failing iff the most recent outcome
  is a failure; with \<open>failure_ratio = {window: W, fail_count: K}\<close> and \<open>W\<close> positive it is
  failing iff the failures among the last \<open>min(W, len(history))\<close> outcomes are at least
  \<open>K\<close>; with \<open>W\<close> zero or negative the failures of the whole history are counted. After an
  update (the outcome appended to the recorded history, the result cut to the window
  size) the decision is the same count over the recorded history followed by the new
  outcome: over its last \<open>min(W, len)\<close> outcomes when \<open>W\<close> is positive, over its last
  \<open>min(10, len)\<close> outcomes otherwise.
\<close>

theorem failing_decision:
  "thresholdBreached check [] = False \<and>
   thresholdBreached check (hs @ [x]) =
     (case FailureRatio check of
        None \<Rightarrow> x
      | Some th \<Rightarrow>
          FailCount th \<le> failuresAmongLast
            (if 0 < Window th then nat (min (Window th) (int (length (hs @ [x]))))
             else length (hs @ [x]))
            (hs @ [x])) \<and>
   thresholdBreached check (appendHistory history failed (windowSize check)) =
     (case FailureRatio check of
        None \<Rightarrow> failed
      | Some th \<Rightarrow>
          FailCount th \<le> failuresAmongLast
            (if 0 < Window th then nat (min (Window th) (int (length (history @ [failed]))))
             else min 10 (length (history @ [failed])))
            (history @ [failed]))"
proof -
  have "thresholdBreached check [] = False" by (simp add: thresholdBreached_def)
  moreover have "thresholdBreached check (hs @ [x]) =
     (case FailureRatio check of
        None \<Rightarrow> x
      | Some th \<Rightarrow>
          FailCount th \<le> failuresAmongLast
            (if 0 < Window th then nat (min (Window th) (int (length (hs @ [x]))))
             else length (hs @ [x]))
            (hs @ [x]))"
    using thresholdBreached_nonempty [of "hs @ [x]" check]
    by (cases "FailureRatio check") simp_all
  ultimately show ?thesis using thresholdBreached_appendHistory [of check history failed]
    by blast
qed

theorem failing_decision_witness:
  "\<not> thresholdBreached (ex_ratio_check 3 2) ([True, False, False] @ [True])
   \<and> thresholdBreached (ex_ratio_check 3 2)
       (appendHistory [True, False, False, True] True (windowSize (ex_ratio_check 3 2)))
   \<and> \<not> thresholdBreached (ex_ratio_check 3 2)
       (appendHistory [True, True, False] False (windowSize (ex_ratio_check 3 2)))"
  using failing_decision [of "ex_ratio_check 3 2" "[True, False, False]" True
          "[True, False, False, True]" True]
        failing_decision [of "ex_ratio_check 3 2" "[]" True "[True, True, False]" False]
  by (simp add: ex_ratio_check_def failuresAmongLast_def)

text \<open>
  The claim as stated fails for a window that is zero (the field left out): the code
  then counts the failures of the whole history, the claim those of no outcome at all.
\<close>

theorem zero_window_counterexample:
  "thresholdBreached (ex_ratio_check 0 1) (appendHistory [] True (windowSize (ex_ratio_check 0 1)))
   \<and> \<not> spec_now_failing (ex_ratio_check 0 1)
          (appendHistory [] True (windowSize (ex_ratio_check 0 1)))"
  by (simp add: thresholdBreached_def spec_now_failing_def appendHistory_def windowSize_def
      ex_ratio_check_def countFailures_def failuresAmongLast_def Let_def)

subsection \<open>Hook invocation\<close>

lemmas ex_eval = Invoke_def InsertHookExecution_def resolveDuration_def lastInsertId_def
  NewManager_def ex_manager_def ex_hook_cfg_def ex_exec_def ex_db_def Let_def Hour_def
  Second_def

lemma InsertHookExecution_cases:
  assumes "InsertHookExecution (Some db) now exec = (r, s')"
    and "RequestedAt exec = now" and "Status exec = ''active''"
  shows "(exec_fails db \<and> r = Inl InsertFailed \<and> s' = Some db) \<or>
         (\<not> exec_fails db \<and>
          s' = Some (db\<lparr>hook_executions :=
                  hook_executions db @ [exec\<lparr>hx_ID := lastInsertId (hook_executions db)\<rparr>]\<rparr>) \<and>
          r = (if last_insert_id_fails db then Inl LastInsertIdFailed
               else Inr (lastInsertId (hook_executions db))))"
  using assms unfolding InsertHookExecution_def Let_def
  by (auto split: if_splits)

lemma Invoke_cases:
  assumes "Invoke m now hookID opts = (r, m')"
    and cfg: "hooksByID m hookID = Some cfg" and db: "store m = Some db"
  shows "\<exists>row. HookID row = hook_ID cfg \<and> Kind row = action_Kind cfg \<and>
           Scope row = action_Scope cfg \<and> TargetIDs row = action_TargetIDs cfg \<and>
           RequestedAt row = now \<and> Status row = ''active'' \<and>
           ActiveUntil row =
             (if resolveDuration cfg opts (defaultOpts_MaxDuration m) > 0
              then Some (now + resolveDuration cfg opts (defaultOpts_MaxDuration m)) else None) \<and>
           UntilFirstSuccess row =
             (action_UntilFirstSuccess cfg \<or> opt_UntilFirstSuccess opts = Some True) \<and>
           ((exec_fails db \<and> r = Inl InsertFailed \<and> m' = m\<lparr>store := Some db\<rparr>) \<or>
            (\<not> exec_fails db \<and>
             m' = m\<lparr>store := Some (db\<lparr>hook_executions := hook_executions db @ [row]\<rparr>)\<rparr> \<and>
             r = (if last_insert_id_fails db then Inl LastInsertIdFailed else Inr row)))"
proof -
  define d where "d = resolveDuration cfg opts (defaultOpts_MaxDuration m)"
  define e where "e = \<lparr>hx_ID = 0, HookID = hook_ID cfg, Kind = action_Kind cfg,
                        Scope = action_Scope cfg, TargetIDs = action_TargetIDs cfg,
                        ActiveUntil = (if d > 0 then Some (now + d) else None),
                        UntilFirstSuccess =
                          (case opt_UntilFirstSuccess opts of
                             None \<Rightarrow> action_UntilFirstSuccess cfg
                           | Some u \<Rightarrow>
                               if action_UntilFirstSuccess cfg \<and> \<not> u
                               then action_UntilFirstSuccess cfg
                               else u),
                        RequestedAt = now, Status = ''active''\<rparr>"
  obtain ri s where ins: "InsertHookExecution (Some db) now e = (ri, s)"
    by (cases "InsertHookExecution (Some db) now e") auto
  have "Invoke m now hookID opts =
          (case InsertHookExecution (store m) now e of
             (Inl err, s) \<Rightarrow> (Inl err, m\<lparr>store := s\<rparr>)
           | (Inr newID, s) \<Rightarrow> (Inr (e\<lparr>hx_ID := newID\<rparr>), m\<lparr>store := s\<rparr>))"
    unfolding Invoke_def Let_def e_def d_def using cfg by simp
  with ins db assms(1)
  have inv: "(r, m') = (case ri of Inl err \<Rightarrow> (Inl err, m\<lparr>store := s\<rparr>)
                      | Inr newID \<Rightarrow> (Inr (e\<lparr>hx_ID := newID\<rparr>), m\<lparr>store := s\<rparr>))"
    by simp
  have e: "RequestedAt e = now" "Status e = ''active''" by (simp_all add: e_def)
  define row where "row = e\<lparr>hx_ID := lastInsertId (hook_executions db)\<rparr>"
  have u: "UntilFirstSuccess row =
             (action_UntilFirstSuccess cfg \<or> opt_UntilFirstSuccess opts = Some True)"
    by (auto simp: row_def e_def split: option.splits)
  have fields: "HookID row = hook_ID cfg" "Kind row = action_Kind cfg"
    "Scope row = action_Scope cfg" "TargetIDs row = action_TargetIDs cfg"
    "RequestedAt row = now" "Status row = ''active''"
    "ActiveUntil row = (if d > 0 then Some (now + d) else None)"
    by (simp_all add: row_def e_def)
  from InsertHookExecution_cases [OF ins e]
  have "(exec_fails db \<and> r = Inl InsertFailed \<and> m' = m\<lparr>store := Some db\<rparr>) \<or>
        (\<not> exec_fails db \<and>
         m' = m\<lparr>store := Some (db\<lparr>hook_executions := hook_executions db @ [row]\<rparr>)\<rparr> \<and>
         r = (if last_insert_id_fails db then Inl LastInsertIdFailed else Inr row))"
    using inv by (auto simp: row_def)
  then show ?thesis using u fields unfolding d_def by blast
qed


text \<open>
  Claim C6. An invocation of a configured hook on an open store either leaves the table
  \<open>hook_executions\<close> as it was and returns an error, or appends exactly one row. The
  row's \<open>until_first_success\<close> is true iff the hook's configuration requires it or the
  request sets it to true: a request can set the flag, never clear a configured one.
  When the database accepts the statement and reports the new id, \<open>Invoke\<close> returns that
  row.
\<close>

theorem until_first_success_not_relaxed:
  assumes "Invoke m now hookID opts = (r, m')"
    and "hooksByID m hookID = Some cfg" and "store m = Some db"
  shows "\<exists>row. UntilFirstSuccess row =
                 (action_UntilFirstSuccess cfg \<or> opt_UntilFirstSuccess opts = Some True) \<and>
           ((exec_fails db \<and> r = Inl InsertFailed \<and> m' = m\<lparr>store := Some db\<rparr>) \<or>
            (\<not> exec_fails db \<and>
             m' = m\<lparr>store := Some (db\<lparr>hook_executions := hook_executions db @ [row]\<rparr>)\<rparr> \<and>
             r = (if last_insert_id_fails db then Inl LastInsertIdFailed else Inr row)))"
  using Invoke_cases [OF assms] by blast

theorem until_first_success_not_relaxed_witness:
  "Invoke (ex_manager True None) 1000 ''pause-all''
      \<lparr>DurationOverride = None, opt_UntilFirstSuccess = Some False\<rparr>
    = (Inr (ex_exec 1000 (Some (1000 + Hour)) True),
       (ex_manager True None)\<lparr>store := Some (ex_db [ex_exec 1000 (Some (1000 + Hour)) True])\<rparr>)
   \<and> UntilFirstSuccess (ex_exec 1000 (Some (1000 + Hour)) True)"
proof -
  have run: "Invoke (ex_manager True None) 1000 ''pause-all''
      \<lparr>DurationOverride = None, opt_UntilFirstSuccess = Some False\<rparr>
    = (Inr (ex_exec 1000 (Some (1000 + Hour)) True),
       (ex_manager True None)\<lparr>store := Some (ex_db [ex_exec 1000 (Some (1000 + Hour)) True])\<rparr>)"
    by (simp add: ex_eval)
  have cfg: "hooksByID (ex_manager True None) ''pause-all'' = Some (ex_hook_cfg True None)"
    by (simp add: ex_manager_def NewManager_def ex_hook_cfg_def)
  have db: "store (ex_manager True None) = Some (ex_db [])"
    by (simp add: ex_manager_def NewManager_def)
  from until_first_success_not_relaxed [OF run cfg db] run show ?thesis
    by (auto simp: ex_db_def ex_hook_cfg_def)
qed









subsection \<open>Effective interval\<close>

text \<open>
  Claim C9. In the worker and in the server the per-check override wins when set, and
  the service default applies otherwise. The server falls back to 60 seconds: for a
  default that is not positive in \<open>App.effectiveInterval\<close>, and for any result that is
  not positive where the interval is used. The worker has no fallback: with no override
  and a default interval left unset (zero) its effective interval is zero, not 60
  seconds, and the ticker of the check loop panics.
\<close>

theorem effective_interval_rule:
  "effectiveInterval d check = (case interval_override check of Some i \<Rightarrow> i | None \<Rightarrow> d) \<and>
   App_effectiveInterval d check =
     (case interval_override check of
        Some i \<Rightarrow> i
      | None \<Rightarrow> if 0 < d then d else 60 * Second) \<and>
   evaluateChecks_interval d check =
     (case interval_override check of
        Some i \<Rightarrow> if 0 < i then i else 60 * Second
      | None \<Rightarrow> if 0 < d then d else 60 * Second) \<and>
   effectiveInterval 0 ex_check = 0 \<and>
   runCheckLoop_ticker 0 ex_check = None \<and>
   evaluateChecks_interval 0 ex_check = 60 * Second"
  unfolding effectiveInterval_def App_effectiveInterval_def evaluateChecks_interval_def
    interval_override_def runCheckLoop_ticker_def NewTicker_def Let_def ex_check_def
  by (simp add: Second_def split: option.splits)

end
